theory Spec2Isabelle
  imports Complex_Main
begin

section \<open>The scanner backend: tables, ledger operations, scan routes\<close>

text \<open>
  A shallow embedding of \<^verbatim>\<open>scanner-backend/database.py\<close>,
  \<^verbatim>\<open>scanner-backend/api.py\<close> and of \<^verbatim>\<open>BarcodeScanner.scan_frame\<close> in
  \<^verbatim>\<open>scanner-backend/scanner_engine.py\<close>.

  Conventions of the embedding.
  \<^item> A table is the list of its rows, in insertion order; \<^verbatim>\<open>query.filter(..).first()\<close>
    is \<^const>\<open>find\<close> on that list, \<^verbatim>\<open>session.add\<close> of a new object followed by
    \<^verbatim>\<open>commit\<close> appends a row.
  \<^item> A \<^verbatim>\<open>Float\<close> column and a Python \<^verbatim>\<open>float\<close> are exact reals: rounding,
    infinities and NaN are not part of the model.
  \<^item> \<^verbatim>\<open>str(uuid.uuid4())\<close> is a draw from the environment: every operation takes the
    identifiers it would draw as its first arguments.
  \<^item> Timestamps (\<^verbatim>\<open>datetime.now()\<close>), logging and the WebSocket broadcast are left out.
  \<^item> An operation that changes the database returns its outcome together with the
    database after the call. A \<^verbatim>\<open>raise\<close> inside \<^verbatim>\<open>with get_session() as session\<close>
    leaves the block before \<^verbatim>\<open>session.commit()\<close>, so the pending changes are dropped
    and the database after the call is the one before it.
\<close>

subsection \<open>Models (database.py, lines 24-122)\<close>

record product =
  p_id :: string
  p_name :: string
  p_sku :: string
  p_category :: "string option"
  p_unit_of_measure :: "string option"
  p_barcode :: "string option"

record warehouse =
  w_id :: string
  w_name :: string
  w_code :: string
  w_location :: "string option"
  w_barcode :: "string option"

record stock_level =
  sl_id :: string
  sl_product_id :: string
  sl_warehouse_id :: string
  sl_quantity :: real

datatype MovementType =
  RECEIPT | DELIVERY | TRANSFER | ADJUSTMENT | SCAN_RECEIPT | SCAN_DELIVERY

record stock_movement =
  sm_id :: string
  sm_product_id :: string
  sm_warehouse_id :: string
  sm_movement_type :: MovementType
  sm_quantity :: real
  sm_quantity_change :: real
  sm_reason :: "string option"
  sm_scanned_by :: "string option"
  sm_scanner_id :: "string option"

record scan_log =
  lg_id :: string
  lg_barcode_data :: string
  lg_barcode_type :: string
  lg_scanner_id :: "string option"
  lg_camera_id :: int
  lg_action_taken :: string
  lg_product_id :: "string option"
  lg_warehouse_id :: "string option"
  lg_quantity :: "real option"
  lg_success :: int
  lg_error_message :: "string option"

record database =
  products :: "product list"
  warehouses :: "warehouse list"
  stock_levels :: "stock_level list"
  stock_movements :: "stock_movement list"
  scan_logs :: "scan_log list"

subsection \<open>Errors\<close>

text \<open>
  The three \<^verbatim>\<open>ValueError\<close>s raised in database.py, told apart by their message:
  \<^verbatim>\<open>"Insufficient stock. Available: {stock.quantity}"\<close>,
  \<^verbatim>\<open>"Product not found: {product_barcode}"\<close> and
  \<^verbatim>\<open>"Warehouse not found: {warehouse_barcode}"\<close>.
\<close>

datatype error =
  Insufficient_stock real
  | Product_not_found string
  | Warehouse_not_found string

subsection \<open>ScannerDatabaseOperations (database.py, lines 162-446)\<close>

definition log_scan ::
  "string \<Rightarrow> database \<Rightarrow> string \<Rightarrow> string \<Rightarrow> string option \<Rightarrow> int \<Rightarrow> string \<Rightarrow>
   string option \<Rightarrow> string option \<Rightarrow> real option \<Rightarrow> bool \<Rightarrow> string option \<Rightarrow> string \<times> database"
where
  "log_scan uuid db barcode_data barcode_type scanner_id camera_id action_taken
       product_id warehouse_id quantity success error_message =
     (let entry = \<lparr>lg_id = uuid,
                    lg_barcode_data = barcode_data,
                    lg_barcode_type = barcode_type,
                    lg_scanner_id = scanner_id,
                    lg_camera_id = camera_id,
                    lg_action_taken = action_taken,
                    lg_product_id = product_id,
                    lg_warehouse_id = warehouse_id,
                    lg_quantity = quantity,
                    lg_success = (if success then 1 else 0),
                    lg_error_message = error_message\<rparr>
      in (lg_id entry, db\<lparr>scan_logs := scan_logs db @ [entry]\<rparr>))"

definition find_product_by_barcode :: "database \<Rightarrow> string \<Rightarrow> product option" where
  "find_product_by_barcode db barcode =
     find (\<lambda>p. p_barcode p = Some barcode) (products db)"

definition find_warehouse_by_barcode :: "database \<Rightarrow> string \<Rightarrow> warehouse option" where
  "find_warehouse_by_barcode db barcode =
     find (\<lambda>w. w_barcode w = Some barcode) (warehouses db)"

definition stock_key :: "string \<Rightarrow> string \<Rightarrow> stock_level \<Rightarrow> bool" where
  "stock_key product_id warehouse_id s \<longleftrightarrow>
     sl_product_id s = product_id \<and> sl_warehouse_id s = warehouse_id"

definition get_stock_level :: "database \<Rightarrow> string \<Rightarrow> string \<Rightarrow> real" where
  "get_stock_level db product_id warehouse_id =
     (case find (stock_key product_id warehouse_id) (stock_levels db) of
        None \<Rightarrow> 0
      | Some stock \<Rightarrow> sl_quantity stock)"

text \<open>
  The object returned by \<^verbatim>\<open>.first()\<close> is mutated and written back on commit: the
  first row that satisfies the filter is replaced, every other row is kept.
\<close>

fun update_first :: "('a \<Rightarrow> bool) \<Rightarrow> ('a \<Rightarrow> 'a) \<Rightarrow> 'a list \<Rightarrow> 'a list" where
  "update_first P f [] = []"
| "update_first P f (x # xs) = (if P x then f x # xs else x # update_first P f xs)"

record update_result =
  old_quantity :: real
  new_quantity :: real
  quantity_change :: real
  movement_id :: string

definition update_stock ::
  "string \<Rightarrow> string \<Rightarrow> database \<Rightarrow> string \<Rightarrow> string \<Rightarrow> real \<Rightarrow> MovementType \<Rightarrow>
   string option \<Rightarrow> string option \<Rightarrow> string option \<Rightarrow> (error + update_result) \<times> database"
where
  "update_stock uuid_stock uuid_movement db product_id warehouse_id qty_change movement_type
       reason scanned_by scanner_id =
     (let found = find (stock_key product_id warehouse_id) (stock_levels db);
          old_qty = (case found of None \<Rightarrow> 0 | Some s \<Rightarrow> sl_quantity s);
          stock = (case found of
                     None \<Rightarrow> \<lparr>sl_id = uuid_stock,
                               sl_product_id = product_id,
                               sl_warehouse_id = warehouse_id,
                               sl_quantity = 0\<rparr>
                   | Some s \<Rightarrow> s);
          new_qty = sl_quantity stock + qty_change
      in if new_qty < 0 then (Inl (Insufficient_stock (sl_quantity stock)), db)
         else
           let levels = (case found of
                           None \<Rightarrow> stock_levels db @ [stock\<lparr>sl_quantity := new_qty\<rparr>]
                         | Some s \<Rightarrow>
                             update_first (stock_key product_id warehouse_id)
                               (\<lambda>r. r\<lparr>sl_quantity := new_qty\<rparr>) (stock_levels db));
               movement = \<lparr>sm_id = uuid_movement,
                            sm_product_id = product_id,
                            sm_warehouse_id = warehouse_id,
                            sm_movement_type = movement_type,
                            sm_quantity = \<bar>qty_change\<bar>,
                            sm_quantity_change = qty_change,
                            sm_reason = reason,
                            sm_scanned_by = scanned_by,
                            sm_scanner_id = scanner_id\<rparr>
           in (Inr \<lparr>old_quantity = old_qty,
                    new_quantity = new_qty,
                    quantity_change = qty_change,
                    movement_id = sm_id movement\<rparr>,
               db\<lparr>stock_levels := levels,
                  stock_movements := stock_movements db @ [movement]\<rparr>))"

text \<open>
  The dictionary returned by the two scan operations: the success dictionary
  (\<^verbatim>\<open>'success': True\<close>, the action, the product and warehouse summaries and the
  entries of \<^const>\<open>update_stock\<close>'s result) or the failure dictionary
  (\<^verbatim>\<open>'success': False, 'error': str(e)\<close>).
\<close>

record product_summary =
  ps_id :: string
  ps_name :: string
  ps_sku :: string

record warehouse_summary =
  ws_id :: string
  ws_name :: string

datatype scan_outcome =
  Scan_ok string product_summary warehouse_summary update_result
  | Scan_failed error

fun success :: "scan_outcome \<Rightarrow> bool" where
  "success (Scan_ok action p w r) = True"
| "success (Scan_failed e) = False"

text \<open>\<^verbatim>\<open>result.get('product', {}).get('id')\<close> and the same for the warehouse.\<close>

fun result_product_id :: "scan_outcome \<Rightarrow> string option" where
  "result_product_id (Scan_ok action p w r) = Some (ps_id p)"
| "result_product_id (Scan_failed e) = None"

fun result_warehouse_id :: "scan_outcome \<Rightarrow> string option" where
  "result_warehouse_id (Scan_ok action p w r) = Some (ws_id w)"
| "result_warehouse_id (Scan_failed e) = None"

definition process_receipt_scan ::
  "string \<Rightarrow> string \<Rightarrow> database \<Rightarrow> string \<Rightarrow> string \<Rightarrow> real \<Rightarrow>
   string option \<Rightarrow> string option \<Rightarrow> scan_outcome \<times> database"
where
  "process_receipt_scan uuid_stock uuid_movement db product_barcode warehouse_barcode quantity
       scanned_by scanner_id =
     (case find_product_by_barcode db product_barcode of
        None \<Rightarrow> (Scan_failed (Product_not_found product_barcode), db)
      | Some product \<Rightarrow>
          (case find_warehouse_by_barcode db warehouse_barcode of
             None \<Rightarrow> (Scan_failed (Warehouse_not_found warehouse_barcode), db)
           | Some warehouse \<Rightarrow>
               (case update_stock uuid_stock uuid_movement db (p_id product) (w_id warehouse)
                       quantity SCAN_RECEIPT
                       (Some (''Scanned receipt: '' @ p_name product)) scanned_by scanner_id of
                  (Inl e, db') \<Rightarrow> (Scan_failed e, db')
                | (Inr result, db') \<Rightarrow>
                    (Scan_ok ''receipt''
                       \<lparr>ps_id = p_id product, ps_name = p_name product, ps_sku = p_sku product\<rparr>
                       \<lparr>ws_id = w_id warehouse, ws_name = w_name warehouse\<rparr>
                       result, db'))))"

definition process_delivery_scan ::
  "string \<Rightarrow> string \<Rightarrow> database \<Rightarrow> string \<Rightarrow> string \<Rightarrow> real \<Rightarrow>
   string option \<Rightarrow> string option \<Rightarrow> scan_outcome \<times> database"
where
  "process_delivery_scan uuid_stock uuid_movement db product_barcode warehouse_barcode quantity
       scanned_by scanner_id =
     (case find_product_by_barcode db product_barcode of
        None \<Rightarrow> (Scan_failed (Product_not_found product_barcode), db)
      | Some product \<Rightarrow>
          (case find_warehouse_by_barcode db warehouse_barcode of
             None \<Rightarrow> (Scan_failed (Warehouse_not_found warehouse_barcode), db)
           | Some warehouse \<Rightarrow>
               (case update_stock uuid_stock uuid_movement db (p_id product) (w_id warehouse)
                       (- quantity) SCAN_DELIVERY
                       (Some (''Scanned delivery: '' @ p_name product)) scanned_by scanner_id of
                  (Inl e, db') \<Rightarrow> (Scan_failed e, db')
                | (Inr result, db') \<Rightarrow>
                    (Scan_ok ''delivery''
                       \<lparr>ps_id = p_id product, ps_name = p_name product, ps_sku = p_sku product\<rparr>
                       \<lparr>ws_id = w_id warehouse, ws_name = w_name warehouse\<rparr>
                       result, db'))))"

subsection \<open>The scan routes (api.py, lines 64-79 and 237-363)\<close>

record ReceiptRequest =
  rr_product_barcode :: string
  rr_warehouse_barcode :: string
  rr_quantity :: real
  rr_scanned_by :: "string option"
  rr_scanner_id :: "string option"

record DeliveryRequest =
  dr_product_barcode :: string
  dr_warehouse_barcode :: string
  dr_quantity :: real
  dr_scanned_by :: "string option"
  dr_scanner_id :: "string option"

datatype http_exception = HTTPException int string

text \<open>
  Both routes run the scan operation, then \<^const>\<open>log_scan\<close>, then the broadcast, and
  return the operation's dictionary. The \<^verbatim>\<open>except Exception\<close> branch, which raises
  \<^verbatim>\<open>HTTPException(400)\<close>, has no exception to catch in this model: the scan operation
  catches its own, and \<^const>\<open>log_scan\<close> raises none.
\<close>

definition scan_receipt ::
  "string \<Rightarrow> string \<Rightarrow> string \<Rightarrow> database \<Rightarrow> ReceiptRequest \<Rightarrow>
   (http_exception + scan_outcome) \<times> database"
where
  "scan_receipt uuid_stock uuid_movement uuid_log db request =
     (let (result, db1) =
            process_receipt_scan uuid_stock uuid_movement db
              (rr_product_barcode request) (rr_warehouse_barcode request) (rr_quantity request)
              (rr_scanned_by request) (rr_scanner_id request);
          (log_id, db2) =
            log_scan uuid_log db1 (rr_product_barcode request) ''QR_CODE''
              (rr_scanner_id request) 0 ''receipt''
              (result_product_id result) (result_warehouse_id result)
              (Some (rr_quantity request)) (success result) None
      in (Inr result, db2))"

definition scan_delivery ::
  "string \<Rightarrow> string \<Rightarrow> string \<Rightarrow> database \<Rightarrow> DeliveryRequest \<Rightarrow>
   (http_exception + scan_outcome) \<times> database"
where
  "scan_delivery uuid_stock uuid_movement uuid_log db request =
     (let (result, db1) =
            process_delivery_scan uuid_stock uuid_movement db
              (dr_product_barcode request) (dr_warehouse_barcode request) (dr_quantity request)
              (dr_scanned_by request) (dr_scanner_id request);
          (log_id, db2) =
            log_scan uuid_log db1 (dr_product_barcode request) ''QR_CODE''
              (dr_scanner_id request) 0 ''delivery''
              (result_product_id result) (result_warehouse_id result)
              (Some (dr_quantity request)) (success result) None
      in (Inr result, db2))"



subsection \<open>Sequences of ledger calls\<close>






subsection \<open>BarcodeScanner.scan_frame (scanner_engine.py, lines 20-27 and 88-139)\<close>

text \<open>
  A detection as \<^verbatim>\<open>pyzbar.decode\<close> returns it: the payload bytes, the symbology and the
  bounding rectangle. Bytes are \<^typ>\<open>char\<close>s, and a Python \<^verbatim>\<open>str\<close> is represented
  by its UTF-8 encoding.
\<close>

record rect =
  r_left :: int
  r_top :: int
  r_width :: int
  r_height :: int

record decoded =
  bc_data :: string
  bc_type :: string
  bc_rect :: rect

record ScanResult =
  sr_data :: string
  sr_type :: string
  sr_bbox :: "int \<times> int \<times> int \<times> int"
  sr_confidence :: real

text \<open>
  A Python dictionary keeps its keys in the order of their first insertion; storing under
  a key that is present replaces the value and keeps the key's place.
\<close>

fun dict_set :: "('k \<times> 'v) list \<Rightarrow> 'k \<Rightarrow> 'v \<Rightarrow> ('k \<times> 'v) list" where
  "dict_set [] k v = [(k, v)]"
| "dict_set ((k', v') # d) k v =
     (if k' = k then (k', v) # d else (k', v') # dict_set d k v)"

text \<open>\<^verbatim>\<open>list({b.data: b for b in bs}.values())\<close>\<close>

definition all_barcodes :: "decoded list \<Rightarrow> decoded list" where
  "all_barcodes bs = map snd (foldl (\<lambda>d b. dict_set d (bc_data b) b) [] bs)"

text \<open>
  \<^verbatim>\<open>bytes.decode('utf-8')\<close> raises \<^verbatim>\<open>UnicodeDecodeError\<close> unless the bytes are
  well-formed UTF-8 (the Unicode Standard, table 3-7); with a \<^verbatim>\<open>str\<close> represented by
  its encoding, the decoded string is the byte sequence itself.
\<close>

definition cont_byte :: "nat \<Rightarrow> bool" where
  "cont_byte b \<longleftrightarrow> 0x80 \<le> b \<and> b \<le> 0xBF"

fun utf8_wf :: "nat list \<Rightarrow> bool" where
  "utf8_wf [] = True"
| "utf8_wf [b] = (b < 0x80)"
| "utf8_wf [b, c1] = (if b < 0x80 then c1 < 0x80 else 0xC2 \<le> b \<and> b \<le> 0xDF \<and> cont_byte c1)"
| "utf8_wf [b, c1, c2] =
     (if b < 0x80 then utf8_wf [c1, c2]
      else if 0xC2 \<le> b \<and> b \<le> 0xDF then cont_byte c1 \<and> c2 < 0x80
      else (b = 0xE0 \<and> 0xA0 \<le> c1 \<and> c1 \<le> 0xBF
            \<or> (0xE1 \<le> b \<and> b \<le> 0xEC \<or> b = 0xEE \<or> b = 0xEF) \<and> cont_byte c1
            \<or> b = 0xED \<and> 0x80 \<le> c1 \<and> c1 \<le> 0x9F) \<and> cont_byte c2)"
| "utf8_wf (b # c1 # c2 # c3 # bs) =
     (if b < 0x80 then utf8_wf (c1 # c2 # c3 # bs)
      else if 0xC2 \<le> b \<and> b \<le> 0xDF then cont_byte c1 \<and> utf8_wf (c2 # c3 # bs)
      else if 0xE0 \<le> b \<and> b \<le> 0xEF then
        (b = 0xE0 \<and> 0xA0 \<le> c1 \<and> c1 \<le> 0xBF
         \<or> (0xE1 \<le> b \<and> b \<le> 0xEC \<or> b = 0xEE \<or> b = 0xEF) \<and> cont_byte c1
         \<or> b = 0xED \<and> 0x80 \<le> c1 \<and> c1 \<le> 0x9F) \<and> cont_byte c2 \<and> utf8_wf (c3 # bs)
      else (b = 0xF0 \<and> 0x90 \<le> c1 \<and> c1 \<le> 0xBF
            \<or> 0xF1 \<le> b \<and> b \<le> 0xF3 \<and> cont_byte c1
            \<or> b = 0xF4 \<and> 0x80 \<le> c1 \<and> c1 \<le> 0x8F) \<and> cont_byte c2 \<and> cont_byte c3 \<and> utf8_wf bs)"

definition decode_utf8 :: "string \<Rightarrow> string option" where
  "decode_utf8 bytes = (if utf8_wf (map of_char bytes) then Some bytes else None)"

text \<open>
  The loop over \<^const>\<open>all_barcodes\<close>, with the list \<^verbatim>\<open>results\<close> as accumulator;
  \<^verbatim>\<open>None\<close> is the \<^verbatim>\<open>UnicodeDecodeError\<close> leaving \<^verbatim>\<open>scan_frame\<close>.
\<close>

fun scan_loop :: "decoded list \<Rightarrow> ScanResult list \<Rightarrow> ScanResult list option" where
  "scan_loop [] results = Some results"
| "scan_loop (barcode # rest) results =
     (case decode_utf8 (bc_data barcode) of
        None \<Rightarrow> None
      | Some data \<Rightarrow>
          scan_loop rest
            (results @ [\<lparr>sr_data = data,
                         sr_type = bc_type barcode,
                         sr_bbox = (r_left (bc_rect barcode), r_top (bc_rect barcode),
                                    r_width (bc_rect barcode), r_height (bc_rect barcode)),
                         sr_confidence = 1\<rparr>]))"

text \<open>
  \<^verbatim>\<open>scan_frame\<close>, given what the two \<^verbatim>\<open>pyzbar.decode\<close> calls (on the frame and on
  the thresholded image) returned.
\<close>

definition scan_frame :: "decoded list \<Rightarrow> decoded list \<Rightarrow> ScanResult list option" where
  "scan_frame barcodes barcodes_thresh = scan_loop (all_barcodes (barcodes @ barcodes_thresh)) []"

text \<open>
  The payloads of a list in the order of their first occurrence, each once: what the
  specification asks of the merged output.
\<close>

fun first_occurrences :: "'a list \<Rightarrow> 'a list" where
  "first_occurrences [] = []"
| "first_occurrences (x # xs) = x # first_occurrences (removeAll x xs)"

subsection \<open>Example data\<close>

text \<open>
  The scenario of the specification: product \<^verbatim>\<open>STEEL-ROD-50\<close>, warehouse
  \<^verbatim>\<open>WH-MAIN\<close>, and a ledger holding one receipt of 10 units.
\<close>

definition steel_rod :: product where
  "steel_rod = \<lparr>p_id = ''p1'', p_name = ''Steel Rods'', p_sku = ''STEEL-ROD-50'',
                 p_category = Some ''Raw Materials'', p_unit_of_measure = Some ''pieces'',
                 p_barcode = Some ''STEEL-ROD-50''\<rparr>"

definition wh_main :: warehouse where
  "wh_main = \<lparr>w_id = ''w1'', w_name = ''Main Warehouse'', w_code = ''WH-MAIN'',
               w_location = Some ''Building A'', w_barcode = Some ''WH-MAIN''\<rparr>"

definition first_receipt :: stock_movement where
  "first_receipt = \<lparr>sm_id = ''m1'', sm_product_id = ''p1'', sm_warehouse_id = ''w1'',
                     sm_movement_type = SCAN_RECEIPT, sm_quantity = 10, sm_quantity_change = 10,
                     sm_reason = Some ''Scanned receipt: Steel Rods'',
                     sm_scanned_by = Some ''scanner_user'', sm_scanner_id = Some ''web_scanner''\<rparr>"

definition ledger10 :: database where
  "ledger10 = \<lparr>products = [steel_rod],
                warehouses = [wh_main],
                stock_levels = [\<lparr>sl_id = ''s1'', sl_product_id = ''p1'', sl_warehouse_id = ''w1'',
                                 sl_quantity = 10\<rparr>],
                stock_movements = [first_receipt],
                scan_logs = []\<rparr>"




text \<open>
  A receipt scan of a barcode that no product carries, a delivery scan of 30 units, and a
  database in which one barcode is carried by a product and by a warehouse.
\<close>

definition unknown_receipt :: ReceiptRequest where
  "unknown_receipt = \<lparr>rr_product_barcode = ''NO-SUCH-CODE'', rr_warehouse_barcode = ''WH-MAIN'',
                       rr_quantity = 1, rr_scanned_by = Some ''scanner_user'',
                       rr_scanner_id = Some ''web_scanner''\<rparr>"

definition delivery30 :: DeliveryRequest where
  "delivery30 = \<lparr>dr_product_barcode = ''STEEL-ROD-50'', dr_warehouse_barcode = ''WH-MAIN'',
                  dr_quantity = 30, dr_scanned_by = Some ''scanner_user'',
                  dr_scanner_id = Some ''web_scanner''\<rparr>"



text \<open>
  The first and the last detection of a list that carry a given payload, and the bounding
  box \<^verbatim>\<open>scan_frame\<close> builds from a detection's rectangle.
\<close>

definition first_detection :: "decoded list \<Rightarrow> string \<Rightarrow> decoded option" where
  "first_detection bs payload = find (\<lambda>b. bc_data b = payload) bs"

definition last_detection :: "decoded list \<Rightarrow> string \<Rightarrow> decoded option" where
  "last_detection bs payload = find (\<lambda>b. bc_data b = payload) (rev bs)"

definition bbox_of :: "decoded \<Rightarrow> int \<times> int \<times> int \<times> int" where
  "bbox_of b = (r_left (bc_rect b), r_top (bc_rect b), r_width (bc_rect b), r_height (bc_rect b))"

text \<open>
  Detections of the payloads A, B and C; the payload A is seen as a QR code in the frame
  and as a Code 128 symbol, at another place, in the thresholded image.
\<close>

definition det_A :: decoded where
  "det_A = \<lparr>bc_data = ''A'', bc_type = ''QRCODE'',
            bc_rect = \<lparr>r_left = 10, r_top = 20, r_width = 100, r_height = 100\<rparr>\<rparr>"

definition det_A_thresh :: decoded where
  "det_A_thresh = \<lparr>bc_data = ''A'', bc_type = ''CODE128'',
                   bc_rect = \<lparr>r_left = 12, r_top = 21, r_width = 98, r_height = 40\<rparr>\<rparr>"

definition det_B :: decoded where
  "det_B = \<lparr>bc_data = ''B'', bc_type = ''QRCODE'',
            bc_rect = \<lparr>r_left = 200, r_top = 20, r_width = 100, r_height = 100\<rparr>\<rparr>"

definition det_C :: decoded where
  "det_C = \<lparr>bc_data = ''C'', bc_type = ''EAN13'',
            bc_rect = \<lparr>r_left = 10, r_top = 300, r_width = 150, r_height = 60\<rparr>\<rparr>"

text \<open>
  One step of the dictionary comprehension, and the \<^verbatim>\<open>ScanResult\<close> that the loop of
  \<^verbatim>\<open>scan_frame\<close> builds from a detection whose payload decodes.
\<close>

abbreviation store :: "(string \<times> decoded) list \<Rightarrow> decoded \<Rightarrow> (string \<times> decoded) list" where
  "store \<equiv> \<lambda>d b. dict_set d (bc_data b) b"

definition to_result :: "decoded \<Rightarrow> ScanResult" where
  "to_result b = \<lparr>sr_data = bc_data b, sr_type = bc_type b, sr_bbox = bbox_of b, sr_confidence = 1\<rparr>"

section \<open>Properties\<close>

subsection \<open>Rows found and rows replaced\<close>



lemma find_append_eq:
  "find P (xs @ ys) = (case find P xs of None \<Rightarrow> find P ys | Some x \<Rightarrow> Some x)"
  by (induction xs) auto

lemma stock_key_quantity [simp]: "stock_key p w (r\<lparr>sl_quantity := q\<rparr>) = stock_key p w r"
  by (simp add: stock_key_def)


subsection \<open>One call of update_stock\<close>

lemma update_stock_raises:
  assumes "get_stock_level db p w + chg < 0"
  shows "update_stock u1 u2 db p w chg mt rs sb sc =
           (Inl (Insufficient_stock (get_stock_level db p w)), db)"
  using assms by (simp add: update_stock_def get_stock_level_def Let_def split: option.splits)

lemma update_stock_returns:
  assumes "\<not> get_stock_level db p w + chg < 0"
  shows "fst (update_stock u1 u2 db p w chg mt rs sb sc) =
           Inr \<lparr>old_quantity = get_stock_level db p w,
                new_quantity = get_stock_level db p w + chg,
                quantity_change = chg, movement_id = u2\<rparr>"
    and "stock_movements (snd (update_stock u1 u2 db p w chg mt rs sb sc)) =
           stock_movements db @
           [\<lparr>sm_id = u2, sm_product_id = p, sm_warehouse_id = w, sm_movement_type = mt,
             sm_quantity = \<bar>chg\<bar>, sm_quantity_change = chg, sm_reason = rs,
             sm_scanned_by = sb, sm_scanner_id = sc\<rparr>]"
    and "products (snd (update_stock u1 u2 db p w chg mt rs sb sc)) = products db"
    and "warehouses (snd (update_stock u1 u2 db p w chg mt rs sb sc)) = warehouses db"
    and "scan_logs (snd (update_stock u1 u2 db p w chg mt rs sb sc)) = scan_logs db"
  using assms
  by (simp_all add: update_stock_def get_stock_level_def Let_def split: option.splits)



subsection \<open>Non-negative balances\<close>



lemma ledger10_balance:
  "get_stock_level ledger10 p w = (if p = ''p1'' \<and> w = ''w1'' then 10 else 0)"
  by (simp add: get_stock_level_def ledger10_def stock_key_def)



subsection \<open>Balances and movement sums\<close>







subsection \<open>What update_stock returns\<close>



subsection \<open>What a movement records\<close>

text \<open>
  Claim C8 asks that the movement record the magnitude of the balance that results from
  the adjustment. A receipt of 5 on a balance of 10 records the quantity 5, while the
  resulting balance is 15.
\<close>

theorem movement_quantity_counterexample:
  "sm_quantity (last (stock_movements
       (snd (update_stock ''s3'' ''m3'' ledger10 ''p1'' ''w1'' 5 SCAN_RECEIPT None None None)))) = 5
   \<and> \<bar>get_stock_level
        (snd (update_stock ''s3'' ''m3'' ledger10 ''p1'' ''w1'' 5 SCAN_RECEIPT None None None))
        ''p1'' ''w1''\<bar> = 15
   \<and> sm_quantity (last (stock_movements
       (snd (update_stock ''s3'' ''m3'' ledger10 ''p1'' ''w1'' 5 SCAN_RECEIPT None None None)))) \<noteq>
     \<bar>get_stock_level
        (snd (update_stock ''s3'' ''m3'' ledger10 ''p1'' ''w1'' 5 SCAN_RECEIPT None None None))
        ''p1'' ''w1''\<bar>"
  by (simp add: update_stock_def ledger10_def get_stock_level_def stock_key_def Let_def)

text \<open>
  Claim C8, amended. The movement appended by a successful \<^const>\<open>update_stock\<close>
  carries the signed quantity change of the call and, as its quantity, the absolute value
  of that change, together with the product, the warehouse, the movement type, the reason,
  the actor and the scanner identifier of the call.
\<close>

theorem movement_record:
  "0 \<le> get_stock_level db p w + chg \<Longrightarrow>
     stock_movements (snd (update_stock u1 u2 db p w chg mt rs sb sc)) =
       stock_movements db @
       [\<lparr>sm_id = u2, sm_product_id = p, sm_warehouse_id = w, sm_movement_type = mt,
         sm_quantity = \<bar>chg\<bar>, sm_quantity_change = chg, sm_reason = rs,
         sm_scanned_by = sb, sm_scanner_id = sc\<rparr>]"
  using update_stock_returns(2) [of db p w chg] by simp

theorem movement_record_witness:
  "0 \<le> get_stock_level ledger10 ''p1'' ''w1'' + (- 4)
   \<and> stock_movements
       (snd (update_stock ''s3'' ''m3'' ledger10 ''p1'' ''w1'' (- 4) SCAN_DELIVERY
               (Some ''Scanned delivery: Steel Rods'') (Some ''scanner_user'')
               (Some ''web_scanner''))) =
       [first_receipt,
        \<lparr>sm_id = ''m3'', sm_product_id = ''p1'', sm_warehouse_id = ''w1'',
         sm_movement_type = SCAN_DELIVERY, sm_quantity = 4, sm_quantity_change = - 4,
         sm_reason = Some ''Scanned delivery: Steel Rods'',
         sm_scanned_by = Some ''scanner_user'', sm_scanner_id = Some ''web_scanner''\<rparr>]"
proof -
  have ms: "stock_movements ledger10 = [first_receipt]"
    by (simp add: ledger10_def)
  from movement_record
         [of ledger10 "''p1''" "''w1''" "- 4" "''s3''" "''m3''" SCAN_DELIVERY
             "Some ''Scanned delivery: Steel Rods''" "Some ''scanner_user''"
             "Some ''web_scanner''"]
  show ?thesis using ms by (simp add: ledger10_balance)
qed

subsection \<open>The scan operations with resolved barcodes\<close>

lemma process_receipt_scan_resolved:
  assumes "find_product_by_barcode db pb = Some product"
    and "find_warehouse_by_barcode db wb = Some warehouse"
  shows "snd (process_receipt_scan u1 u2 db pb wb q sb sc) =
         snd (update_stock u1 u2 db (p_id product) (w_id warehouse) q SCAN_RECEIPT
                (Some (''Scanned receipt: '' @ p_name product)) sb sc)"
    and "fst (process_receipt_scan u1 u2 db pb wb q sb sc) =
         (case fst (update_stock u1 u2 db (p_id product) (w_id warehouse) q SCAN_RECEIPT
                (Some (''Scanned receipt: '' @ p_name product)) sb sc) of
            Inl e \<Rightarrow> Scan_failed e
          | Inr r \<Rightarrow> Scan_ok ''receipt''
                       \<lparr>ps_id = p_id product, ps_name = p_name product, ps_sku = p_sku product\<rparr>
                       \<lparr>ws_id = w_id warehouse, ws_name = w_name warehouse\<rparr> r)"
  using assms
  by (simp_all add: process_receipt_scan_def split: prod.splits sum.splits)

lemma process_delivery_scan_resolved:
  assumes "find_product_by_barcode db pb = Some product"
    and "find_warehouse_by_barcode db wb = Some warehouse"
  shows "snd (process_delivery_scan u1 u2 db pb wb q sb sc) =
         snd (update_stock u1 u2 db (p_id product) (w_id warehouse) (- q) SCAN_DELIVERY
                (Some (''Scanned delivery: '' @ p_name product)) sb sc)"
    and "fst (process_delivery_scan u1 u2 db pb wb q sb sc) =
         (case fst (update_stock u1 u2 db (p_id product) (w_id warehouse) (- q) SCAN_DELIVERY
                (Some (''Scanned delivery: '' @ p_name product)) sb sc) of
            Inl e \<Rightarrow> Scan_failed e
          | Inr r \<Rightarrow> Scan_ok ''delivery''
                       \<lparr>ps_id = p_id product, ps_name = p_name product, ps_sku = p_sku product\<rparr>
                       \<lparr>ws_id = w_id warehouse, ws_name = w_name warehouse\<rparr> r)"
  using assms
  by (simp_all add: process_delivery_scan_def split: prod.splits sum.splits)

lemma ledger10_find:
  "find_product_by_barcode ledger10 ''STEEL-ROD-50'' = Some steel_rod"
  "find_warehouse_by_barcode ledger10 ''WH-MAIN'' = Some wh_main"
  by (simp_all add: find_product_by_barcode_def find_warehouse_by_barcode_def ledger10_def
      steel_rod_def wh_main_def)

lemma example_ids: "p_id steel_rod = ''p1''" "w_id wh_main = ''w1''" "p_name steel_rod = ''Steel Rods''"
  by (simp_all add: steel_rod_def wh_main_def)



subsection \<open>The scan operations in general\<close>

lemma process_receipt_scan_scan_logs:
  "scan_logs (snd (process_receipt_scan u1 u2 db pb wb q sb sc)) = scan_logs db"
proof (cases "find_product_by_barcode db pb")
  case None
  then show ?thesis by (simp add: process_receipt_scan_def)
next
  case (Some product)
  note p = this
  show ?thesis
  proof (cases "find_warehouse_by_barcode db wb")
    case None
    then show ?thesis using p by (simp add: process_receipt_scan_def)
  next
    case (Some warehouse)
    show ?thesis
    proof (cases "get_stock_level db (p_id product) (w_id warehouse) + q < 0")
      case True
      then show ?thesis
        by (simp add: process_receipt_scan_resolved(1) [OF p Some] update_stock_raises)
    next
      case False
      then show ?thesis
        by (simp add: process_receipt_scan_resolved(1) [OF p Some] update_stock_returns(5))
    qed
  qed
qed

lemma process_delivery_scan_scan_logs:
  "scan_logs (snd (process_delivery_scan u1 u2 db pb wb q sb sc)) = scan_logs db"
proof (cases "find_product_by_barcode db pb")
  case None
  then show ?thesis by (simp add: process_delivery_scan_def)
next
  case (Some product)
  note p = this
  show ?thesis
  proof (cases "find_warehouse_by_barcode db wb")
    case None
    then show ?thesis using p by (simp add: process_delivery_scan_def)
  next
    case (Some warehouse)
    show ?thesis
    proof (cases "get_stock_level db (p_id product) (w_id warehouse) + (- q) < 0")
      case True
      then show ?thesis
        by (simp add: process_delivery_scan_resolved(1) [OF p Some] update_stock_raises)
    next
      case False
      then show ?thesis
        by (simp add: process_delivery_scan_resolved(1) [OF p Some] update_stock_returns(5))
    qed
  qed
qed

lemma process_scan_unresolved:
  assumes "find_product_by_barcode db pb = None \<or> find_warehouse_by_barcode db wb = None"
  shows "process_receipt_scan u1 u2 db pb wb q sb sc =
           (Scan_failed (if find_product_by_barcode db pb = None then Product_not_found pb
                         else Warehouse_not_found wb), db)"
    and "process_delivery_scan u1 u2 db pb wb q sb sc =
           (Scan_failed (if find_product_by_barcode db pb = None then Product_not_found pb
                         else Warehouse_not_found wb), db)"
  using assms
  by (auto simp: process_receipt_scan_def process_delivery_scan_def split: option.splits)

lemma scan_receipt_eq:
  "scan_receipt u1 u2 u3 db rq =
     (let res = process_receipt_scan u1 u2 db (rr_product_barcode rq) (rr_warehouse_barcode rq)
                  (rr_quantity rq) (rr_scanned_by rq) (rr_scanner_id rq)
      in (Inr (fst res),
          (snd res)\<lparr>scan_logs := scan_logs db @
            [\<lparr>lg_id = u3, lg_barcode_data = rr_product_barcode rq, lg_barcode_type = ''QR_CODE'',
              lg_scanner_id = rr_scanner_id rq, lg_camera_id = 0, lg_action_taken = ''receipt'',
              lg_product_id = result_product_id (fst res),
              lg_warehouse_id = result_warehouse_id (fst res),
              lg_quantity = Some (rr_quantity rq),
              lg_success = (if success (fst res) then 1 else 0),
              lg_error_message = None\<rparr>]\<rparr>))"
  by (simp add: scan_receipt_def log_scan_def Let_def process_receipt_scan_scan_logs
      split: prod.splits)
     (metis process_receipt_scan_scan_logs snd_conv)

lemma scan_delivery_eq:
  "scan_delivery u1 u2 u3 db rq =
     (let res = process_delivery_scan u1 u2 db (dr_product_barcode rq) (dr_warehouse_barcode rq)
                  (dr_quantity rq) (dr_scanned_by rq) (dr_scanner_id rq)
      in (Inr (fst res),
          (snd res)\<lparr>scan_logs := scan_logs db @
            [\<lparr>lg_id = u3, lg_barcode_data = dr_product_barcode rq, lg_barcode_type = ''QR_CODE'',
              lg_scanner_id = dr_scanner_id rq, lg_camera_id = 0, lg_action_taken = ''delivery'',
              lg_product_id = result_product_id (fst res),
              lg_warehouse_id = result_warehouse_id (fst res),
              lg_quantity = Some (dr_quantity rq),
              lg_success = (if success (fst res) then 1 else 0),
              lg_error_message = None\<rparr>]\<rparr>))"
  by (simp add: scan_delivery_def log_scan_def Let_def process_delivery_scan_scan_logs
      split: prod.splits)
     (metis process_delivery_scan_scan_logs snd_conv)


lemma process_receipt_scan_success:
  "success (fst (process_receipt_scan u1 u2 db pb wb q sb sc)) \<longleftrightarrow>
     (\<exists>product warehouse. find_product_by_barcode db pb = Some product
        \<and> find_warehouse_by_barcode db wb = Some warehouse
        \<and> 0 \<le> get_stock_level db (p_id product) (w_id warehouse) + q)"
proof (cases "find_product_by_barcode db pb = None \<or> find_warehouse_by_barcode db wb = None")
  case True
  then show ?thesis by (auto simp: process_scan_unresolved(1) [OF True])
next
  case False
  then obtain product warehouse where p: "find_product_by_barcode db pb = Some product"
    and w: "find_warehouse_by_barcode db wb = Some warehouse" by auto
  show ?thesis
  proof (cases "get_stock_level db (p_id product) (w_id warehouse) + q < 0")
    case True
    then show ?thesis
      by (simp add: process_receipt_scan_resolved(2) [OF p w] update_stock_raises p w)
  next
    case False
    then show ?thesis
      by (simp add: process_receipt_scan_resolved(2) [OF p w] update_stock_returns(1) p w)
  qed
qed

lemma process_delivery_scan_success:
  "success (fst (process_delivery_scan u1 u2 db pb wb q sb sc)) \<longleftrightarrow>
     (\<exists>product warehouse. find_product_by_barcode db pb = Some product
        \<and> find_warehouse_by_barcode db wb = Some warehouse
        \<and> 0 \<le> get_stock_level db (p_id product) (w_id warehouse) - q)"
proof (cases "find_product_by_barcode db pb = None \<or> find_warehouse_by_barcode db wb = None")
  case True
  then show ?thesis by (auto simp: process_scan_unresolved(2) [OF True])
next
  case False
  then obtain product warehouse where p: "find_product_by_barcode db pb = Some product"
    and w: "find_warehouse_by_barcode db wb = Some warehouse" by auto
  show ?thesis
  proof (cases "get_stock_level db (p_id product) (w_id warehouse) + (- q) < 0")
    case True
    then show ?thesis
      by (simp add: process_delivery_scan_resolved(2) [OF p w] update_stock_raises p w)
  next
    case False
    then show ?thesis
      by (simp add: process_delivery_scan_resolved(2) [OF p w] update_stock_returns(1) p w)
  qed
qed

lemma ledger10_tables:
  "products ledger10 = [steel_rod]" "warehouses ledger10 = [wh_main]"
  "stock_movements ledger10 = [first_receipt]" "scan_logs ledger10 = []"
  by (simp_all add: ledger10_def)

subsection \<open>The scan routes\<close>

text \<open>
  Claim C5. Every call of the receipt route and of the delivery route returns the scan
  operation's dictionary and appends exactly one entry to the scan log, for the scanned
  product barcode and the action of the route. The entry's success flag is 1 when the
  operation succeeded and 0 when it failed, and it succeeds exactly when both barcodes
  resolve and the resulting balance is not negative. When the product or the warehouse
  barcode does not resolve, the entry's product id and warehouse id are both null.
\<close>

theorem scan_appends_one_log_entry:
  "(\<exists>result entry.
      fst (scan_receipt u1 u2 u3 db rr) = Inr result
      \<and> scan_logs (snd (scan_receipt u1 u2 u3 db rr)) = scan_logs db @ [entry]
      \<and> lg_barcode_data entry = rr_product_barcode rr
      \<and> lg_action_taken entry = ''receipt''
      \<and> lg_success entry = (if success result then 1 else 0)
      \<and> (success result \<longleftrightarrow>
           (\<exists>product warehouse.
              find_product_by_barcode db (rr_product_barcode rr) = Some product
              \<and> find_warehouse_by_barcode db (rr_warehouse_barcode rr) = Some warehouse
              \<and> 0 \<le> get_stock_level db (p_id product) (w_id warehouse) + rr_quantity rr))
      \<and> (find_product_by_barcode db (rr_product_barcode rr) = None
           \<or> find_warehouse_by_barcode db (rr_warehouse_barcode rr) = None \<longrightarrow>
           lg_product_id entry = None \<and> lg_warehouse_id entry = None))
   \<and> (\<exists>result entry.
      fst (scan_delivery u1 u2 u3 db dr) = Inr result
      \<and> scan_logs (snd (scan_delivery u1 u2 u3 db dr)) = scan_logs db @ [entry]
      \<and> lg_barcode_data entry = dr_product_barcode dr
      \<and> lg_action_taken entry = ''delivery''
      \<and> lg_success entry = (if success result then 1 else 0)
      \<and> (success result \<longleftrightarrow>
           (\<exists>product warehouse.
              find_product_by_barcode db (dr_product_barcode dr) = Some product
              \<and> find_warehouse_by_barcode db (dr_warehouse_barcode dr) = Some warehouse
              \<and> 0 \<le> get_stock_level db (p_id product) (w_id warehouse) - dr_quantity dr))
      \<and> (find_product_by_barcode db (dr_product_barcode dr) = None
           \<or> find_warehouse_by_barcode db (dr_warehouse_barcode dr) = None \<longrightarrow>
           lg_product_id entry = None \<and> lg_warehouse_id entry = None))"
proof (rule conjI)
  let ?res = "process_receipt_scan u1 u2 db (rr_product_barcode rr) (rr_warehouse_barcode rr)
                (rr_quantity rr) (rr_scanned_by rr) (rr_scanner_id rr)"
  have "find_product_by_barcode db (rr_product_barcode rr) = None
        \<or> find_warehouse_by_barcode db (rr_warehouse_barcode rr) = None \<Longrightarrow>
        result_product_id (fst ?res) = None \<and> result_warehouse_id (fst ?res) = None"
    by (simp add: process_scan_unresolved(1))
  then show "\<exists>result entry.
      fst (scan_receipt u1 u2 u3 db rr) = Inr result
      \<and> scan_logs (snd (scan_receipt u1 u2 u3 db rr)) = scan_logs db @ [entry]
      \<and> lg_barcode_data entry = rr_product_barcode rr
      \<and> lg_action_taken entry = ''receipt''
      \<and> lg_success entry = (if success result then 1 else 0)
      \<and> (success result \<longleftrightarrow>
           (\<exists>product warehouse.
              find_product_by_barcode db (rr_product_barcode rr) = Some product
              \<and> find_warehouse_by_barcode db (rr_warehouse_barcode rr) = Some warehouse
              \<and> 0 \<le> get_stock_level db (p_id product) (w_id warehouse) + rr_quantity rr))
      \<and> (find_product_by_barcode db (rr_product_barcode rr) = None
           \<or> find_warehouse_by_barcode db (rr_warehouse_barcode rr) = None \<longrightarrow>
           lg_product_id entry = None \<and> lg_warehouse_id entry = None)"
    unfolding scan_receipt_eq Let_def
    by (simp add: process_receipt_scan_success)
next
  let ?res = "process_delivery_scan u1 u2 db (dr_product_barcode dr) (dr_warehouse_barcode dr)
                (dr_quantity dr) (dr_scanned_by dr) (dr_scanner_id dr)"
  have "find_product_by_barcode db (dr_product_barcode dr) = None
        \<or> find_warehouse_by_barcode db (dr_warehouse_barcode dr) = None \<Longrightarrow>
        result_product_id (fst ?res) = None \<and> result_warehouse_id (fst ?res) = None"
    by (simp add: process_scan_unresolved(2))
  then show "\<exists>result entry.
      fst (scan_delivery u1 u2 u3 db dr) = Inr result
      \<and> scan_logs (snd (scan_delivery u1 u2 u3 db dr)) = scan_logs db @ [entry]
      \<and> lg_barcode_data entry = dr_product_barcode dr
      \<and> lg_action_taken entry = ''delivery''
      \<and> lg_success entry = (if success result then 1 else 0)
      \<and> (success result \<longleftrightarrow>
           (\<exists>product warehouse.
              find_product_by_barcode db (dr_product_barcode dr) = Some product
              \<and> find_warehouse_by_barcode db (dr_warehouse_barcode dr) = Some warehouse
              \<and> 0 \<le> get_stock_level db (p_id product) (w_id warehouse) - dr_quantity dr))
      \<and> (find_product_by_barcode db (dr_product_barcode dr) = None
           \<or> find_warehouse_by_barcode db (dr_warehouse_barcode dr) = None \<longrightarrow>
           lg_product_id entry = None \<and> lg_warehouse_id entry = None)"
    unfolding scan_delivery_eq Let_def
    by (simp add: process_delivery_scan_success)
qed


theorem scan_appends_one_log_entry_witness:
  "find_product_by_barcode ledger10 (rr_product_barcode unknown_receipt) = None
   \<and> scan_receipt ''s2'' ''m2'' ''l1'' ledger10 unknown_receipt =
       (Inr (Scan_failed (Product_not_found ''NO-SUCH-CODE'')),
        ledger10\<lparr>scan_logs :=
          [\<lparr>lg_id = ''l1'', lg_barcode_data = ''NO-SUCH-CODE'', lg_barcode_type = ''QR_CODE'',
            lg_scanner_id = Some ''web_scanner'', lg_camera_id = 0,
            lg_action_taken = ''receipt'', lg_product_id = None, lg_warehouse_id = None,
            lg_quantity = Some 1, lg_success = 0, lg_error_message = None\<rparr>]\<rparr>)
   \<and> scan_delivery ''s2'' ''m2'' ''l1'' ledger10 delivery30 =
       (Inr (Scan_failed (Insufficient_stock 10)),
        ledger10\<lparr>scan_logs :=
          [\<lparr>lg_id = ''l1'', lg_barcode_data = ''STEEL-ROD-50'', lg_barcode_type = ''QR_CODE'',
            lg_scanner_id = Some ''web_scanner'', lg_camera_id = 0,
            lg_action_taken = ''delivery'', lg_product_id = None, lg_warehouse_id = None,
            lg_quantity = Some 30, lg_success = 0, lg_error_message = None\<rparr>]\<rparr>)
   \<and> (\<exists>result entry.
        fst (scan_receipt ''s2'' ''m2'' ''l1'' ledger10 unknown_receipt) = Inr result
        \<and> scan_logs (snd (scan_receipt ''s2'' ''m2'' ''l1'' ledger10 unknown_receipt)) = [entry]
        \<and> \<not> success result \<and> lg_success entry = 0
        \<and> lg_product_id entry = None \<and> lg_warehouse_id entry = None)
   \<and> (\<exists>result entry.
        fst (scan_delivery ''s2'' ''m2'' ''l1'' ledger10 delivery30) = Inr result
        \<and> scan_logs (snd (scan_delivery ''s2'' ''m2'' ''l1'' ledger10 delivery30)) = [entry]
        \<and> \<not> success result \<and> lg_success entry = 0)"
proof -
  have unknown: "find_product_by_barcode ledger10 (rr_product_barcode unknown_receipt) = None"
    by (simp add: find_product_by_barcode_def ledger10_tables steel_rod_def unknown_receipt_def)
  have r: "scan_receipt ''s2'' ''m2'' ''l1'' ledger10 unknown_receipt =
       (Inr (Scan_failed (Product_not_found ''NO-SUCH-CODE'')),
        ledger10\<lparr>scan_logs :=
          [\<lparr>lg_id = ''l1'', lg_barcode_data = ''NO-SUCH-CODE'', lg_barcode_type = ''QR_CODE'',
            lg_scanner_id = Some ''web_scanner'', lg_camera_id = 0,
            lg_action_taken = ''receipt'', lg_product_id = None, lg_warehouse_id = None,
            lg_quantity = Some 1, lg_success = 0, lg_error_message = None\<rparr>]\<rparr>)"
    using unknown
    by (simp add: scan_receipt_eq Let_def process_scan_unresolved(1) ledger10_tables)
       (simp add: unknown_receipt_def)
  have low: "get_stock_level ledger10 ''p1'' ''w1'' + (- 30) < 0"
    by (simp add: ledger10_balance)
  have pd: "process_delivery_scan ''s2'' ''m2'' ledger10 ''STEEL-ROD-50'' ''WH-MAIN'' 30 sb sc =
            (Scan_failed (Insufficient_stock 10), ledger10)" for sb sc
    using low
    by (simp add: prod_eq_iff process_delivery_scan_resolved [OF ledger10_find] example_ids
        update_stock_raises ledger10_balance)
  have d: "scan_delivery ''s2'' ''m2'' ''l1'' ledger10 delivery30 =
       (Inr (Scan_failed (Insufficient_stock 10)),
        ledger10\<lparr>scan_logs :=
          [\<lparr>lg_id = ''l1'', lg_barcode_data = ''STEEL-ROD-50'', lg_barcode_type = ''QR_CODE'',
            lg_scanner_id = Some ''web_scanner'', lg_camera_id = 0,
            lg_action_taken = ''delivery'', lg_product_id = None, lg_warehouse_id = None,
            lg_quantity = Some 30, lg_success = 0, lg_error_message = None\<rparr>]\<rparr>)"
    by (simp add: scan_delivery_eq Let_def delivery30_def pd ledger10_tables)
  from scan_appends_one_log_entry [of "''s2''" "''m2''" "''l1''" ledger10 unknown_receipt delivery30]
  show ?thesis using unknown r d by simp
qed

text \<open>
  Claim C6. When the product barcode does not resolve, and when it does but the warehouse
  barcode does not, the receipt and the delivery operation return the failure dictionary
  with the matching not-found error and the database is as before the call: no stock
  level is written and no movement is inserted. When both resolve and the balance is less
  than the delivered quantity, the delivery operation returns the failure dictionary with
  the insufficient-stock error reporting the whole balance, and the database, hence the
  balance, is as before: nothing is delivered in part. The operations return a dictionary
  in every case; no exception leaves them.
\<close>

theorem scan_failure_is_reported:
  "(find_product_by_barcode db pb = None \<longrightarrow>
      process_receipt_scan u1 u2 db pb wb q sb sc = (Scan_failed (Product_not_found pb), db)
      \<and> process_delivery_scan u1 u2 db pb wb q sb sc = (Scan_failed (Product_not_found pb), db))
   \<and> (find_product_by_barcode db pb \<noteq> None \<and> find_warehouse_by_barcode db wb = None \<longrightarrow>
      process_receipt_scan u1 u2 db pb wb q sb sc = (Scan_failed (Warehouse_not_found wb), db)
      \<and> process_delivery_scan u1 u2 db pb wb q sb sc = (Scan_failed (Warehouse_not_found wb), db))
   \<and> (find_product_by_barcode db pb = Some product
      \<and> find_warehouse_by_barcode db wb = Some warehouse
      \<and> get_stock_level db (p_id product) (w_id warehouse) - q < 0 \<longrightarrow>
      process_delivery_scan u1 u2 db pb wb q sb sc =
        (Scan_failed (Insufficient_stock (get_stock_level db (p_id product) (w_id warehouse))), db))"
proof (intro conjI impI)
  assume "find_product_by_barcode db pb = None"
  then show "process_receipt_scan u1 u2 db pb wb q sb sc = (Scan_failed (Product_not_found pb), db)"
    and "process_delivery_scan u1 u2 db pb wb q sb sc = (Scan_failed (Product_not_found pb), db)"
    by (simp_all add: process_scan_unresolved)
next
  assume "find_product_by_barcode db pb \<noteq> None \<and> find_warehouse_by_barcode db wb = None"
  then show "process_receipt_scan u1 u2 db pb wb q sb sc = (Scan_failed (Warehouse_not_found wb), db)"
    and "process_delivery_scan u1 u2 db pb wb q sb sc = (Scan_failed (Warehouse_not_found wb), db)"
    by (simp_all add: process_scan_unresolved)
next
  assume a: "find_product_by_barcode db pb = Some product
      \<and> find_warehouse_by_barcode db wb = Some warehouse
      \<and> get_stock_level db (p_id product) (w_id warehouse) - q < 0"
  then have low: "get_stock_level db (p_id product) (w_id warehouse) + (- q) < 0" by simp
  from a show "process_delivery_scan u1 u2 db pb wb q sb sc =
        (Scan_failed (Insufficient_stock (get_stock_level db (p_id product) (w_id warehouse))), db)"
    by (simp add: prod_eq_iff process_delivery_scan_resolved update_stock_raises [OF low])
qed

theorem scan_failure_is_reported_witness:
  "find_product_by_barcode ledger10 ''NO-SUCH-CODE'' = None
   \<and> process_receipt_scan ''s2'' ''m2'' ledger10 ''NO-SUCH-CODE'' ''WH-MAIN'' 1 None None =
       (Scan_failed (Product_not_found ''NO-SUCH-CODE''), ledger10)
   \<and> find_product_by_barcode ledger10 ''STEEL-ROD-50'' \<noteq> None
   \<and> find_warehouse_by_barcode ledger10 ''WH-NONE'' = None
   \<and> process_delivery_scan ''s2'' ''m2'' ledger10 ''STEEL-ROD-50'' ''WH-NONE'' 1 None None =
       (Scan_failed (Warehouse_not_found ''WH-NONE''), ledger10)
   \<and> find_product_by_barcode ledger10 ''STEEL-ROD-50'' = Some steel_rod
   \<and> find_warehouse_by_barcode ledger10 ''WH-MAIN'' = Some wh_main
   \<and> get_stock_level ledger10 (p_id steel_rod) (w_id wh_main) - 30 < 0
   \<and> process_delivery_scan ''s2'' ''m2'' ledger10 ''STEEL-ROD-50'' ''WH-MAIN'' 30 None None =
       (Scan_failed (Insufficient_stock 10), ledger10)
   \<and> get_stock_level
        (snd (process_delivery_scan ''s2'' ''m2'' ledger10 ''STEEL-ROD-50'' ''WH-MAIN'' 30 None None))
        ''p1'' ''w1'' = 10"
proof -
  have nop: "find_product_by_barcode ledger10 ''NO-SUCH-CODE'' = None"
    by (simp add: find_product_by_barcode_def ledger10_tables steel_rod_def)
  have now: "find_warehouse_by_barcode ledger10 ''WH-NONE'' = None"
    by (simp add: find_warehouse_by_barcode_def ledger10_tables wh_main_def)
  from scan_failure_is_reported
         [of ledger10 "''NO-SUCH-CODE''" "''s2''" "''m2''" "''WH-MAIN''" 1 None None
             steel_rod wh_main]
       scan_failure_is_reported
         [of ledger10 "''STEEL-ROD-50''" "''s2''" "''m2''" "''WH-NONE''" 1 None None
             steel_rod wh_main]
       scan_failure_is_reported
         [of ledger10 "''STEEL-ROD-50''" "''s2''" "''m2''" "''WH-MAIN''" 30 None None
             steel_rod wh_main]
  show ?thesis using nop now
    by (simp add: ledger10_find example_ids ledger10_balance)
qed



subsection \<open>Merging the detections of a frame\<close>

lemma keys_dict_set:
  "map fst (dict_set d k v) = (if k \<in> set (map fst d) then map fst d else map fst d @ [k])"
  by (induction d) force+

lemma map_of_dict_set: "map_of (dict_set d k v) = (map_of d)(k \<mapsto> v)"
  by (induction d) (auto simp: fun_eq_iff)

lemma distinct_dict_set: "distinct (map fst d) \<Longrightarrow> distinct (map fst (dict_set d k v))"
  by (simp add: keys_dict_set)

lemma removeAll_filter_conv: "removeAll k (filter P xs) = filter (\<lambda>x. x \<noteq> k \<and> P x) xs"
  by (induction xs) auto

lemma set_first_occurrences [simp]: "set (first_occurrences xs) = set xs"
proof (induction xs rule: first_occurrences.induct)
  case 1
  show ?case by simp
next
  case (2 x xs)
  then show ?case by auto
qed

lemma distinct_first_occurrences [simp]: "distinct (first_occurrences xs)"
  by (induction xs rule: first_occurrences.induct) simp_all

lemma keys_foldl_store:
  "map fst (foldl store d bs) =
     map fst d @ first_occurrences (filter (\<lambda>k. k \<notin> set (map fst d)) (map bc_data bs))"
proof (induction bs arbitrary: d)
  case Nil
  show ?case by simp
next
  case (Cons b bs)
  show ?case
  proof (cases "bc_data b \<in> set (map fst d)")
    case True
    then show ?thesis by (simp add: Cons.IH keys_dict_set)
  next
    case False
    have "filter (\<lambda>k. k \<notin> set (map fst d @ [bc_data b])) (map bc_data bs) =
          removeAll (bc_data b) (filter (\<lambda>k. k \<notin> set (map fst d)) (map bc_data bs))"
      by (simp add: removeAll_filter_conv)
    then show ?thesis using False by (simp add: Cons.IH keys_dict_set)
  qed
qed

lemma map_of_foldl_store:
  "map_of (foldl store d bs) k =
     (case find (\<lambda>b. bc_data b = k) (rev bs) of Some b \<Rightarrow> Some b | None \<Rightarrow> map_of d k)"
proof (induction bs arbitrary: d)
  case Nil
  show ?case by simp
next
  case (Cons b bs)
  show ?case
    by (simp add: Cons.IH map_of_dict_set find_append_eq split: option.splits)
qed

lemma find_in_set: "find P xs = Some x \<Longrightarrow> x \<in> set xs \<and> P x"
  by (induction xs) (auto split: if_splits)

lemma values_dict_set:
  "\<forall>(k, v) \<in> set d. bc_data v = k \<Longrightarrow> \<forall>(k, v) \<in> set (dict_set d (bc_data b) b). bc_data v = k"
  by (induction d) (auto split: if_splits)

lemma values_foldl_store:
  "\<forall>(k, v) \<in> set d. bc_data v = k \<Longrightarrow> \<forall>(k, v) \<in> set (foldl store d bs). bc_data v = k"
proof (induction bs arbitrary: d)
  case Nil
  then show ?case by simp
next
  case (Cons b bs)
  have "\<forall>(k, v) \<in> set (dict_set d (bc_data b) b). bc_data v = k"
    using Cons.prems by (rule values_dict_set)
  then show ?case using Cons.IH by simp
qed

lemma distinct_foldl_store:
  "distinct (map fst d) \<Longrightarrow> distinct (map fst (foldl store d bs))"
  by (induction bs arbitrary: d) (simp_all add: distinct_dict_set)

lemma all_barcodes_payloads:
  "map bc_data (all_barcodes bs) = first_occurrences (map bc_data bs)"
proof -
  have "\<forall>(k, v) \<in> set (foldl store [] bs). bc_data v = k"
    by (rule values_foldl_store) simp
  then have "map bc_data (map snd (foldl store [] bs)) = map fst (foldl store [] bs)"
    by (auto simp: map_eq_conv)
  then show ?thesis using keys_foldl_store [of "[]" bs] by (simp add: all_barcodes_def)
qed

lemma all_barcodes_last:
  assumes "v \<in> set (all_barcodes bs)"
  shows "last_detection bs (bc_data v) = Some v"
proof -
  from assms obtain k where kv: "(k, v) \<in> set (foldl store [] bs)"
    by (auto simp: all_barcodes_def)
  have "\<forall>(k, v) \<in> set (foldl store [] bs). bc_data v = k"
    by (rule values_foldl_store) simp
  with kv have k: "k = bc_data v" by auto
  have "distinct (map fst (foldl store [] bs))"
    by (rule distinct_foldl_store) simp
  with kv have "map_of (foldl store [] bs) k = Some v" by simp
  then show ?thesis
    unfolding k last_detection_def
    by (simp add: map_of_foldl_store split: option.splits)
qed

lemma scan_loop_decodable:
  "\<forall>b \<in> set bs. utf8_wf (map of_char (bc_data b)) \<Longrightarrow>
   scan_loop bs acc = Some (acc @ map to_result bs)"
  by (induction bs arbitrary: acc) (simp_all add: decode_utf8_def to_result_def bbox_of_def)

lemma set_all_barcodes: "set (all_barcodes bs) \<subseteq> set bs"
proof
  fix v assume "v \<in> set (all_barcodes bs)"
  then have "last_detection bs (bc_data v) = Some v" by (rule all_barcodes_last)
  then have "v \<in> set (rev bs)" unfolding last_detection_def by (auto dest: find_in_set)
  then show "v \<in> set bs" by simp
qed

lemma scan_frame_decodable:
  assumes "\<forall>b \<in> set (bs1 @ bs2). utf8_wf (map of_char (bc_data b))"
  shows "scan_frame bs1 bs2 = Some (map to_result (all_barcodes (bs1 @ bs2)))"
proof -
  have "\<forall>b \<in> set (all_barcodes (bs1 @ bs2)). utf8_wf (map of_char (bc_data b))"
    using assms set_all_barcodes [of "bs1 @ bs2"] by blast
  then show ?thesis by (simp add: scan_frame_def scan_loop_decodable)
qed

lemma example_payloads_wf:
  "utf8_wf (map of_char (bc_data det_A))" "utf8_wf (map of_char (bc_data det_A_thresh))"
  "utf8_wf (map of_char (bc_data det_B))" "utf8_wf (map of_char (bc_data det_C))"
  by (simp_all add: det_A_def det_A_thresh_def det_B_def det_C_def)

text \<open>
  Claim C3. When every payload decodes, \<^const>\<open>scan_frame\<close> returns a list of results
  whose payloads are the payloads of the two detection lists, in the order of their first
  occurrence in the frame's list followed by the thresholded image's list, each exactly
  once, whatever the symbologies: two detections are merged exactly when their payloads
  are equal. The lists [A, B] and [B, C] give [A, B, C].
\<close>

theorem scan_frame_dedup:
  "\<forall>b \<in> set (barcodes @ barcodes_thresh). utf8_wf (map of_char (bc_data b)) \<Longrightarrow>
   \<exists>results. scan_frame barcodes barcodes_thresh = Some results
     \<and> map sr_data results = first_occurrences (map bc_data (barcodes @ barcodes_thresh))
     \<and> distinct (map sr_data results)
     \<and> set (map sr_data results) = bc_data ` set (barcodes @ barcodes_thresh)"
proof -
  assume wf: "\<forall>b \<in> set (barcodes @ barcodes_thresh). utf8_wf (map of_char (bc_data b))"
  let ?bs = "barcodes @ barcodes_thresh"
  let ?results = "map to_result (all_barcodes ?bs)"
  have run: "scan_frame barcodes barcodes_thresh = Some ?results"
    using wf by (rule scan_frame_decodable)
  have "map sr_data ?results = map bc_data (all_barcodes ?bs)"
    by (simp add: to_result_def)
  then have payloads: "map sr_data ?results = first_occurrences (map bc_data ?bs)"
    by (simp add: all_barcodes_payloads)
  have "distinct (map sr_data ?results)"
    unfolding payloads by simp
  moreover have "set (map sr_data ?results) = bc_data ` set ?bs"
    unfolding payloads by (simp add: image_Un)
  ultimately show ?thesis using run payloads by blast
qed

theorem scan_frame_dedup_witness:
  "utf8_wf (map of_char (bc_data det_A)) \<and> utf8_wf (map of_char (bc_data det_B))
   \<and> utf8_wf (map of_char (bc_data det_C)) \<and> utf8_wf (map of_char (bc_data det_A_thresh))
   \<and> first_occurrences (map bc_data ([det_A, det_B] @ [det_B, det_C])) = [''A'', ''B'', ''C'']
   \<and> (\<exists>results. scan_frame [det_A, det_B] [det_B, det_C] = Some results
         \<and> map sr_data results = [''A'', ''B'', ''C''])
   \<and> (\<exists>results. scan_frame [det_A, det_B] [det_A_thresh, det_C] = Some results
         \<and> map sr_data results = [''A'', ''B'', ''C''])"
proof -
  have fo: "first_occurrences (map bc_data ([det_A, det_B] @ [det_B, det_C])) = [''A'', ''B'', ''C'']"
    "first_occurrences (map bc_data ([det_A, det_B] @ [det_A_thresh, det_C])) = [''A'', ''B'', ''C'']"
    by (simp_all add: det_A_def det_A_thresh_def det_B_def det_C_def)
  have wf1: "\<forall>b \<in> set ([det_A, det_B] @ [det_B, det_C]). utf8_wf (map of_char (bc_data b))"
    by (simp add: example_payloads_wf)
  have wf2: "\<forall>b \<in> set ([det_A, det_B] @ [det_A_thresh, det_C]). utf8_wf (map of_char (bc_data b))"
    by (simp add: example_payloads_wf)
  have e1: "\<exists>results. scan_frame [det_A, det_B] [det_B, det_C] = Some results
         \<and> map sr_data results = [''A'', ''B'', ''C'']"
    using scan_frame_dedup [OF wf1] unfolding fo by (elim exE conjE) (intro exI conjI)
  have e2: "\<exists>results. scan_frame [det_A, det_B] [det_A_thresh, det_C] = Some results
         \<and> map sr_data results = [''A'', ''B'', ''C'']"
    using scan_frame_dedup [OF wf2] unfolding fo by (elim exE conjE) (intro exI conjI)
  show ?thesis using example_payloads_wf fo(1) e1 e2 by (intro conjI)
qed

text \<open>
  Claim C4 asks that the observation kept for a payload be the first one seen. For the
  payload A seen as a QR code in the frame and as a Code 128 symbol in the thresholded
  image, the result carries the symbology and the bounding box of the second detection.
\<close>

theorem first_seen_counterexample:
  "scan_frame [det_A] [det_A_thresh] =
     Some [\<lparr>sr_data = ''A'', sr_type = ''CODE128'', sr_bbox = (12, 21, 98, 40),
            sr_confidence = 1\<rparr>]
   \<and> first_detection ([det_A] @ [det_A_thresh]) ''A'' = Some det_A
   \<and> bc_type det_A = ''QRCODE''
   \<and> bbox_of det_A = (10, 20, 100, 100)"
  by (simp add: scan_frame_def all_barcodes_def decode_utf8_def first_detection_def bbox_of_def
      det_A_def det_A_thresh_def)

text \<open>
  Claim C4, amended. When every payload decodes, each result of \<^const>\<open>scan_frame\<close>
  carries the symbology and the bounding box of the last detection with its payload in
  the frame's list followed by the thresholded image's list: storing under a key that the
  dictionary holds replaces the value.
\<close>

theorem last_seen_wins:
  "\<forall>b \<in> set (barcodes @ barcodes_thresh). utf8_wf (map of_char (bc_data b)) \<Longrightarrow>
   \<exists>results. scan_frame barcodes barcodes_thresh = Some results
     \<and> (\<forall>r \<in> set results.
          \<exists>b. last_detection (barcodes @ barcodes_thresh) (sr_data r) = Some b
             \<and> sr_type r = bc_type b \<and> sr_bbox r = bbox_of b)"
proof -
  assume wf: "\<forall>b \<in> set (barcodes @ barcodes_thresh). utf8_wf (map of_char (bc_data b))"
  let ?bs = "barcodes @ barcodes_thresh"
  have run: "scan_frame barcodes barcodes_thresh = Some (map to_result (all_barcodes ?bs))"
    using wf by (rule scan_frame_decodable)
  have "\<exists>b. last_detection ?bs (sr_data r) = Some b \<and> sr_type r = bc_type b \<and> sr_bbox r = bbox_of b"
    if "r \<in> set (map to_result (all_barcodes ?bs))" for r
  proof -
    from that obtain v where v: "v \<in> set (all_barcodes ?bs)" and r: "r = to_result v"
      by auto
    from v have "last_detection ?bs (bc_data v) = Some v" by (rule all_barcodes_last)
    then show ?thesis by (simp add: r to_result_def)
  qed
  with run show ?thesis by blast
qed

theorem last_seen_wins_witness:
  "utf8_wf (map of_char (bc_data det_A)) \<and> utf8_wf (map of_char (bc_data det_B))
   \<and> utf8_wf (map of_char (bc_data det_A_thresh)) \<and> utf8_wf (map of_char (bc_data det_C))
   \<and> last_detection ([det_A, det_B] @ [det_A_thresh, det_C]) ''A'' = Some det_A_thresh
   \<and> scan_frame [det_A, det_B] [det_A_thresh, det_C] =
       Some [\<lparr>sr_data = ''A'', sr_type = ''CODE128'', sr_bbox = (12, 21, 98, 40),
              sr_confidence = 1\<rparr>,
             \<lparr>sr_data = ''B'', sr_type = ''QRCODE'', sr_bbox = (200, 20, 100, 100),
              sr_confidence = 1\<rparr>,
             \<lparr>sr_data = ''C'', sr_type = ''EAN13'', sr_bbox = (10, 300, 150, 60),
              sr_confidence = 1\<rparr>]
   \<and> (\<exists>results. scan_frame [det_A, det_B] [det_A_thresh, det_C] = Some results
        \<and> (\<forall>r \<in> set results.
             \<exists>b. last_detection ([det_A, det_B] @ [det_A_thresh, det_C]) (sr_data r) = Some b
                \<and> sr_type r = bc_type b \<and> sr_bbox r = bbox_of b))"
proof -
  have wf: "\<forall>b \<in> set ([det_A, det_B] @ [det_A_thresh, det_C]). utf8_wf (map of_char (bc_data b))"
    by (simp add: example_payloads_wf)
  have l: "last_detection ([det_A, det_B] @ [det_A_thresh, det_C]) ''A'' = Some det_A_thresh"
    by (simp add: last_detection_def det_A_def det_A_thresh_def det_B_def det_C_def)
  have run: "scan_frame [det_A, det_B] [det_A_thresh, det_C] =
       Some [\<lparr>sr_data = ''A'', sr_type = ''CODE128'', sr_bbox = (12, 21, 98, 40),
              sr_confidence = 1\<rparr>,
             \<lparr>sr_data = ''B'', sr_type = ''QRCODE'', sr_bbox = (200, 20, 100, 100),
              sr_confidence = 1\<rparr>,
             \<lparr>sr_data = ''C'', sr_type = ''EAN13'', sr_bbox = (10, 300, 150, 60),
              sr_confidence = 1\<rparr>]"
    by (simp add: scan_frame_def all_barcodes_def decode_utf8_def
        det_A_def det_A_thresh_def det_B_def det_C_def)
  from last_seen_wins [OF wf]
  show ?thesis using example_payloads_wf l run by (intro conjI)
qed

end
